theory Spec2Isabelle
  imports Complex_Main "HOL-Library.Word" "HOL-Library.Log_Nat"
begin

unbundle bit_operations_syntax

section \<open>The status codec of the pump scanner (scanner.py)\<close>

text \<open>
  Python integers are unbounded and are modelled as \<open>int\<close>; a \<open>bytes\<close> value is a list
  of 8-bit words. Every \<open>raise ValueError(...)\<close> of the codec is a constructor of
  \<open>error\<close>, named after its message; \<open>SerialException\<close> stands for what the serial
  port raises.
\<close>

datatype error =
    Invalid_pump_ID int
  | Invalid_pump_nibble int
  | Invalid_status_response_length
  | SerialException

type_synonym bytes = "8 word list"

definition ADDRESS_RANGE :: "int \<times> int" where
  "ADDRESS_RANGE = (1, 16)"

definition CMD_STATUS :: int where
  "CMD_STATUS = 0x0"

text \<open>The enumeration \<open>PumpStatus\<close> of scanner.py (models.py has another one of the same name).\<close>

datatype ScannerPumpStatus =
  DATA_ERROR | OFF | CALL | AUTHORIZED | BUSY | PEOT | FEOT | STOP | OFFLINE

definition pump_id_to_nibble :: "int \<Rightarrow> error + int" where
  "pump_id_to_nibble pump_id =
     (if pump_id = 16 then Inr 0
      else if 1 \<le> pump_id \<and> pump_id \<le> 15 then Inr pump_id
      else Inl (Invalid_pump_ID pump_id))"

definition nibble_to_pump_id :: "int \<Rightarrow> error + int" where
  "nibble_to_pump_id nibble =
     (if nibble = 0 then Inr 16
      else if 1 \<le> nibble \<and> nibble \<le> 15 then Inr nibble
      else Inl (Invalid_pump_nibble nibble))"

text \<open>
  \<open>bytes([command])\<close> holds the value as one byte; the command is below 16 whenever
  the nibble conversion succeeds.
\<close>

definition build_status_command :: "int \<Rightarrow> error + bytes" where
  "build_status_command pump_id =
     (case pump_id_to_nibble pump_id of
        Inl e \<Rightarrow> Inl e
      | Inr pump_nibble \<Rightarrow> Inr [word_of_int (push_bit 4 CMD_STATUS OR pump_nibble)])"

definition parse_status_response :: "bytes \<Rightarrow> error + (int \<times> int)" where
  "parse_status_response response =
     (if length response \<noteq> 1 then Inl Invalid_status_response_length
      else
        let word = uint (hd response);
            status = drop_bit 4 word AND 0xF;
            pump_nibble = word AND 0xF
        in case nibble_to_pump_id pump_nibble of
             Inl e \<Rightarrow> Inl e
           | Inr pump_id \<Rightarrow> Inr (pump_id, status))"

definition status_map :: "(int \<times> ScannerPumpStatus) list" where
  "status_map =
     [(0x0, DATA_ERROR), (0x6, OFF), (0x7, CALL), (0x8, AUTHORIZED),
      (0x9, BUSY), (0xA, PEOT), (0xB, FEOT), (0xC, STOP)]"

definition status_code_to_enum :: "int \<Rightarrow> ScannerPumpStatus" where
  "status_code_to_enum status_code =
     (case map_of status_map status_code of
        Some st \<Rightarrow> st
      | None \<Rightarrow> OFFLINE)"


section \<open>The scan loop (scanner.py, main)\<close>

text \<open>
  The serial port is the environment of the scan. For each polled address it is given by
  what the port does during that probe: \<open>ser.write\<close> or \<open>ser.flush\<close> raises (nothing
  catches that inside the loop, so it leaves \<open>main\<close>), \<open>ser.read(1)\<close> raises (caught,
  logged), or \<open>ser.read(1)\<close> returns some bytes, none on a timeout. The sleeps and
  \<open>ser.reset_input_buffer()\<close> change nothing that the loop reads and are left out.
  The log keeps one event for each message that reports an outcome of a probe.
\<close>

datatype probe_io = Write_raises | Read_raises | Read_returns bytes

datatype log_event =
    Info_no_response int
  | Info_response_received int int ScannerPumpStatus
  | Info_pump_ID_matches
  | Info_pump_added int
  | Info_pump_offline int
  | Warning_pump_ID_mismatch int int
  | Error_failed_to_parse error
  | Error_reading_response

text \<open>An entry of \<open>discovered_pumps\<close>: the dict with keys address, status, status_code, response_raw.\<close>

record discovered_pump =
  d_address :: int
  d_status :: ScannerPumpStatus
  d_status_code :: int
  d_response_raw :: bytes

record scan_state =
  discovered_pumps :: "discovered_pump list"
  scan_log :: "log_event list"

definition logger :: "log_event list \<Rightarrow> scan_state \<Rightarrow> scan_state" where
  "logger evs s = s\<lparr>scan_log := scan_log s @ evs\<rparr>"

text \<open>Lines 168 to 207: what the loop does with the bytes that \<open>ser.read(1)\<close> returned.\<close>

definition handle_response :: "int \<Rightarrow> bytes \<Rightarrow> scan_state \<Rightarrow> scan_state" where
  "handle_response pump_address response s =
     (if response = [] then logger [Info_no_response pump_address] s
      else
        case parse_status_response response of
          Inl e \<Rightarrow> logger [Error_failed_to_parse e] s
        | Inr (response_pump_id, status_code) \<Rightarrow>
            let status = status_code_to_enum status_code;
                s1 = logger [Info_response_received response_pump_id status_code status] s
            in if response_pump_id = pump_address then
                 (if status \<noteq> OFFLINE then
                    logger [Info_pump_added pump_address]
                      ((logger [Info_pump_ID_matches] s1)
                         \<lparr>discovered_pumps := discovered_pumps s1 @
                            [\<lparr>d_address = pump_address, d_status = status,
                              d_status_code = status_code, d_response_raw = response\<rparr>]\<rparr>)
                  else logger [Info_pump_ID_matches, Info_pump_offline pump_address] s1)
               else logger [Warning_pump_ID_mismatch pump_address response_pump_id] s1)"

text \<open>One iteration of the loop over the addresses.\<close>

definition probe :: "probe_io \<Rightarrow> int \<Rightarrow> scan_state \<Rightarrow> error + scan_state" where
  "probe io pump_address s =
     (case build_status_command pump_address of
        Inl e \<Rightarrow> Inl e
      | Inr command \<Rightarrow>
          (case io of
             Write_raises \<Rightarrow> Inl SerialException
           | Read_raises \<Rightarrow> Inr (logger [Error_reading_response] s)
           | Read_returns response \<Rightarrow> Inr (handle_response pump_address response s)))"

fun scan_loop :: "(int \<Rightarrow> probe_io) \<Rightarrow> int list \<Rightarrow> scan_state \<Rightarrow> error + scan_state" where
  "scan_loop bus [] s = Inr s"
| "scan_loop bus (pump_address # rest) s =
     (case probe (bus pump_address) pump_address s of
        Inl e \<Rightarrow> Inl e
      | Inr s' \<Rightarrow> scan_loop bus rest s')"

text \<open>\<open>main\<close> once the port is open: \<open>range(ADDRESS_RANGE[0], ADDRESS_RANGE[1] + 1)\<close>.\<close>

definition main :: "(int \<Rightarrow> probe_io) \<Rightarrow> error + scan_state" where
  "main bus =
     scan_loop bus [fst ADDRESS_RANGE..snd ADDRESS_RANGE]
       \<lparr>discovered_pumps = [], scan_log = []\<rparr>"


section \<open>Price repair (ws_pumps.py)\<close>

text \<open>
  The price handed to \<open>fix_price\<close> may be an \<open>int\<close> or a \<open>float\<close>; it is given by
  its value, a rational: every \<open>int\<close> and every finite \<open>float\<close> is one. \<open>round(x)\<close>
  rounds to the nearest integer, a tie to the even one, and on a \<open>float\<close> it is exact.
\<close>

definition py_round :: "rat \<Rightarrow> int" where
  "py_round x =
     (let f = \<lfloor>x\<rfloor>; r = x - of_int f
      in if r < 1 / 2 then f
         else if 1 / 2 < r then f + 1
         else if even f then f else f + 1)"

definition fix_price :: "rat option \<Rightarrow> int option" where
  "fix_price ppu =
     (case ppu of
        None \<Rightarrow> None
      | Some x \<Rightarrow>
          let p = py_round x
          in if p > 9999 \<and> p mod 10 = 0 \<and> 1000 \<le> p div 10 \<and> p div 10 \<le> 9999
             then Some (p div 10)
             else Some p)"

section \<open>Float arithmetic (the arithmetic of the realtime record)\<close>

text \<open>
  A Python \<open>float\<close> is an IEEE 754 binary64 number. Here it is given by its value: a
  finite float is \<open>Num q\<close> with \<open>q\<close> the rational it denotes, and the three other
  constructors are \<open>inf\<close>, \<open>-inf\<close> and \<open>nan\<close>. A zero carries no sign (\<open>-0.0 == 0.0\<close>
  in Python). The operations below round every result to a double, so they return doubles
  on doubles; the live value that \<open>pm.get_realtime\<close> returns is a float by its
  annotation. \<open>OverflowError\<close> and \<open>ZeroDivisionError\<close> are the two exceptions that
  the arithmetic of the loop can raise.
\<close>

datatype number = Num rat | PosInf | NegInf | NaN

datatype arith_error = OverflowError | ZeroDivisionError

text \<open>
  \<open>ilog2 x\<close> is the binary exponent of a positive rational, the integer \<open>e\<close> with
  \<open>2 ^ e \<le> x < 2 ^ (e + 1)\<close>: the quotient of numerator and denominator is within a
  factor 2 of the power given by their bit lengths.
\<close>

definition ilog2 :: "rat \<Rightarrow> int" where
  "ilog2 x =
     (case quotient_of x of
        (a, b) \<Rightarrow> let k = bitlen a - bitlen b in if 2 powi k \<le> x then k else k - 1)"

text \<open>
  Rounding of an exact result to 53 significant bits, to the nearest, a tie to the even
  significand: the doubles with binary exponent \<open>e\<close> are the multiples of
  \<open>2 ^ (e - 52)\<close>, and below \<open>2 ^ -1022\<close> (the subnormal range) the multiples of
  \<open>2 ^ -1074\<close>. A result that rounds to \<open>2 ^ 1024\<close> or beyond is an overflow, which
  the float operations turn into an infinity.
\<close>

definition round_to_double :: "rat \<Rightarrow> rat" where
  "round_to_double x =
     (if x = 0 then 0
      else let q = max (ilog2 \<bar>x\<bar>) (- 1022) - 52
           in of_int (py_round (x / 2 powi q)) * 2 powi q)"

definition to_float :: "rat \<Rightarrow> number" where
  "to_float x =
     (let y = round_to_double x
      in if y = 0 then Num 0
         else if 1024 \<le> ilog2 \<bar>y\<bar> then (if 0 < y then PosInf else NegInf)
         else Num y)"

text \<open>
  The conversion of an \<open>int\<close> operand to \<open>float\<close>, which \<open>float / int\<close> and
  \<open>float * int\<close> do first: correctly rounded, and \<open>OverflowError\<close> where the result
  would be out of range.
\<close>

definition float_of_int :: "int \<Rightarrow> arith_error + number" where
  "float_of_int n =
     (case to_float (of_int n) of
        Num y \<Rightarrow> Inr (Num y)
      | _ \<Rightarrow> Inl OverflowError)"

text \<open>
  \<open>round(x, n)\<close> on a float, for \<open>n \<ge> 0\<close>: the exact value of \<open>x\<close> is rounded to
  \<open>n\<close> decimal places, a tie to the even digit, and the decimal is converted back to
  the nearest double. Beyond 323 places, and on \<open>inf\<close> and \<open>nan\<close>, the result is \<open>x\<close>.
\<close>

definition round_ndigits :: "number \<Rightarrow> nat \<Rightarrow> number" where
  "round_ndigits x n =
     (case x of
        Num v \<Rightarrow> if n > 323 then x else to_float (of_int (py_round (v * 10 ^ n)) / 10 ^ n)
      | _ \<Rightarrow> x)"

definition is_negative :: "number \<Rightarrow> bool" where
  "is_negative x = (case x of Num v \<Rightarrow> v < 0 | NegInf \<Rightarrow> True | _ \<Rightarrow> False)"

definition inf_of_sign :: "bool \<Rightarrow> number" where
  "inf_of_sign negative = (if negative then NegInf else PosInf)"

text \<open>The product of two floats. It raises nothing: an overflow is an infinity.\<close>

definition float_mul :: "number \<Rightarrow> number \<Rightarrow> number" where
  "float_mul x y =
     (case (x, y) of
        (Num a, Num b) \<Rightarrow> to_float (a * b)
      | _ \<Rightarrow>
          if x = NaN \<or> y = NaN \<or> x = Num 0 \<or> y = Num 0 then NaN
          else inf_of_sign (is_negative x \<noteq> is_negative y))"

text \<open>The IEEE quotient by a divisor that is not zero, and \<open>x / y\<close>, which raises on zero.\<close>

definition ieee_div :: "number \<Rightarrow> number \<Rightarrow> number" where
  "ieee_div x y =
     (case (x, y) of
        (Num a, Num b) \<Rightarrow> to_float (a / b)
      | _ \<Rightarrow>
          if x = NaN \<or> y = NaN then NaN
          else if y = PosInf \<or> y = NegInf then
            (if x = PosInf \<or> x = NegInf then NaN else Num 0)
          else inf_of_sign (is_negative x \<noteq> is_negative y))"

definition float_truediv :: "number \<Rightarrow> number \<Rightarrow> arith_error + number" where
  "float_truediv x y = (if y = Num 0 then Inl ZeroDivisionError else Inr (ieee_div x y))"

section \<open>The hub (ws_pumps.py, class Hub)\<close>

text \<open>
  A websocket is an object compared by identity (\<open>c is not ws\<close>): it is a natural
  number here. What \<open>ws.send_json\<close> does is the environment of a broadcast: for each
  subscriber it raises one of the exceptions below or returns. The handler names three
  classes and \<open>Exception\<close>, which is the base of every other one a send can raise.
  \<open>jsonable_encoder\<close> leaves a frame of strings, numbers and lists as it is.
\<close>

datatype exc = WebSocketDisconnect | ConnectionResetError | RuntimeError | Exception

type_synonym websocket = nat

definition disconnect :: "websocket \<Rightarrow> websocket list \<Rightarrow> websocket list" where
  "disconnect ws clients = [c \<leftarrow> clients. c \<noteq> ws]"

text \<open>
  The first loop of \<open>broadcast\<close> over a copy of the registry: the messages sent so far and
  \<open>disconnected_clients\<close> are the accumulators.
\<close>

fun send_loop ::
  "(websocket \<Rightarrow> exc option) \<Rightarrow> 'm \<Rightarrow> websocket list \<Rightarrow>
   (websocket \<times> 'm) list \<times> websocket list \<Rightarrow> (websocket \<times> 'm) list \<times> websocket list" where
  "send_loop send_json msg [] acc = acc"
| "send_loop send_json msg (ws # rest) (sent, disconnected_clients) =
     (case send_json ws of
        None \<Rightarrow> send_loop send_json msg rest (sent @ [(ws, msg)], disconnected_clients)
      | Some e \<Rightarrow> send_loop send_json msg rest (sent, disconnected_clients @ [ws]))"

text \<open>The second loop: \<open>self.disconnect(ws)\<close> for each collected subscriber.\<close>

fun remove_loop :: "websocket list \<Rightarrow> websocket list \<Rightarrow> websocket list" where
  "remove_loop [] clients = clients"
| "remove_loop (ws # rest) clients = remove_loop rest (disconnect ws clients)"

text \<open>\<open>broadcast\<close> returns the messages delivered, in order, and the registry it leaves.\<close>

definition broadcast ::
  "(websocket \<Rightarrow> exc option) \<Rightarrow> 'm \<Rightarrow> websocket list \<Rightarrow> (websocket \<times> 'm) list \<times> websocket list" where
  "broadcast send_json payload clients =
     (let msg = payload;
          (sent, disconnected_clients) = send_loop send_json msg clients ([], [])
      in (sent, remove_loop disconnected_clients clients))"


section \<open>Frames and caches (models.py, ws_pumps.py)\<close>

text \<open>
  \<open>PumpStatus\<close> of models.py; two of its members have the names of members of the
  scanner's enumeration and carry a suffix here. A timestamp is the ISO string that
  \<open>isoformat()\<close> returns; the clock is read by the caller and passed in.
\<close>

datatype PumpStatus =
  IDLE | CALLING | AUTHORIZED_m | DISPENSING | COMPLETE | STOPPED | ERROR | OFFLINE_m

record PumpStatusResponse =
  st_pump_id :: int
  st_status :: PumpStatus
  st_last_updated :: string
  st_error_message :: "string option"
  st_raw_status_code :: "string option"
  st_wire_format :: "string option"

record TransactionData =
  tx_pump_id :: int
  tx_volume :: "rat option"
  tx_price_per_unit :: "rat option"
  tx_total_amount :: "rat option"
  tx_grade :: "int option"
  tx_timestamp :: string

text \<open>The dict \<open>rt\<close> of the dispensing branch, and the \<open>realtime\<close> entry of the test frame.\<close>

record realtime =
  rt_price_per_unit :: "int option"
  rt_grade :: "int option"
  rt_timestamp :: string
  rt_total_amount :: "number option"
  rt_volume :: "number option"

text \<open>An element of \<open>frame["pumps"]\<close>: \<open>st.dict()\<close> and the two optional keys.\<close>

record pump_item =
  pump_id :: int
  status :: PumpStatus
  last_updated :: string
  error_message :: "string option"
  raw_status_code :: "string option"
  wire_format :: "string option"
  realtime :: "realtime option"
  transaction :: "TransactionData option"

record frame =
  ts :: string
  pumps :: "pump_item list"

text \<open>An entry of \<open>meta\<close>, and the three module-level caches, keyed by pump id.\<close>

record pump_meta =
  m_price_per_unit :: "int option"
  m_grade :: "int option"

record caches =
  meta :: "int \<rightharpoonup> pump_meta"
  last_live :: "int \<rightharpoonup> number"
  last_tx :: "int \<rightharpoonup> TransactionData"

definition st_dict :: "PumpStatusResponse \<Rightarrow> pump_item" where
  "st_dict st =
     \<lparr>pump_id = st_pump_id st, status = st_status st, last_updated = st_last_updated st,
      error_message = st_error_message st, raw_status_code = st_raw_status_code st,
      wire_format = st_wire_format st, realtime = None, transaction = None\<rparr>"

section \<open>The per-pump pass of the socket loop (ws_pumps.py, pumps_socket)\<close>

text \<open>
  The pump manager is not part of the sources: the line that binds \<open>pm\<close> is commented
  out, the statuses are the empty dict and both transaction reads are \<open>tx = {}\<close>. The
  transaction read is modelled as the source has it, as a value that is never present;
  the outcome of \<open>pm.get_realtime(pid)\<close> is a parameter of the pass: it raises (which the
  handler around it catches, and which an unbound \<open>pm\<close> always does) or returns a
  float or \<open>None\<close>.
\<close>

datatype live_read = Live_raises | Live_returns "number option"

definition tx :: "TransactionData option" where
  "tx = None"

text \<open>Lines 92 to 101.\<close>

definition learn_meta :: "int \<Rightarrow> caches \<Rightarrow> caches" where
  "learn_meta pid s =
     (if meta s pid = None then
        (case tx of
           None \<Rightarrow> s
         | Some t \<Rightarrow>
             if tx_price_per_unit t \<noteq> None \<and> tx_price_per_unit t \<noteq> Some 0 then
               s\<lparr>meta := (meta s)(pid \<mapsto>
                    \<lparr>m_price_per_unit = fix_price (tx_price_per_unit t), m_grade = tx_grade t\<rparr>)\<rparr>
             else s)
      else s)"

text \<open>Lines 106 to 111: the live read and the store into \<open>last_live\<close>.\<close>

definition read_live :: "int \<Rightarrow> live_read \<Rightarrow> caches \<Rightarrow> caches" where
  "read_live pid live s =
     (case live of
        Live_returns (Some live_val) \<Rightarrow> s\<lparr>last_live := (last_live s)(pid \<mapsto> live_val)\<rparr>
      | Live_returns None \<Rightarrow> s
      | Live_raises \<Rightarrow> s)"

text \<open>Lines 114 and 115: the variable \<open>price\<close>, ten times the cached price when that is not 0.\<close>

definition cached_price :: "caches \<Rightarrow> int \<Rightarrow> int option" where
  "cached_price s pid =
     (let price_per_unit = (case meta s pid of None \<Rightarrow> None | Some m \<Rightarrow> m_price_per_unit m)
      in case price_per_unit of
           None \<Rightarrow> None
         | Some ppu \<Rightarrow> if ppu \<noteq> 0 then Some (ppu * 10) else None)"

text \<open>
  Lines 117 to 129: the record \<open>rt\<close>, from the caches after the read. The literal 1000
  is converted to the float 1000.0 exactly; the conversion of \<open>price\<close> can raise.
\<close>

definition make_rt :: "string \<Rightarrow> int \<Rightarrow> caches \<Rightarrow> arith_error + realtime" where
  "make_rt now pid s =
     (let price = cached_price s pid;
          rt = \<lparr>rt_price_per_unit = price,
                rt_grade = (case meta s pid of None \<Rightarrow> None | Some m \<Rightarrow> m_grade m),
                rt_timestamp = now, rt_total_amount = None, rt_volume = None\<rparr>
      in case last_live s pid of
           None \<Rightarrow> Inr rt
         | Some lv \<Rightarrow>
             (case price of
                Some pr \<Rightarrow>
                  if pr > 0 then
                    let total_amount = float_mul (round_ndigits lv 2) (Num 1000)
                    in (case float_of_int pr of
                          Inl e \<Rightarrow> Inl e
                        | Inr price_f \<Rightarrow>
                            (case float_truediv total_amount price_f of
                               Inl e \<Rightarrow> Inl e
                             | Inr ratio \<Rightarrow>
                                 Inr (rt\<lparr>rt_total_amount := Some total_amount,
                                         rt_volume := Some (round_ndigits ratio 3)\<rparr>)))
                  else Inr (rt\<lparr>rt_volume := Some (round_ndigits lv 3)\<rparr>)
              | None \<Rightarrow> Inr (rt\<lparr>rt_volume := Some (round_ndigits lv 3)\<rparr>)))"

text \<open>
  Lines 104 to 135: the branch for a pump that is dispensing. An exception of the
  arithmetic leaves the branch for the handler of line 155, which logs and goes on to the
  next pump: no item is appended and line 134 is not reached, and what the branch stored
  before stays stored.
\<close>

definition dispensing ::
  "string \<Rightarrow> int \<Rightarrow> live_read \<Rightarrow> pump_item \<Rightarrow> caches \<Rightarrow> pump_item option \<times> caches" where
  "dispensing now pid live item s =
     (let s1 = read_live pid live s
      in case make_rt now pid s1 of
           Inl e \<Rightarrow> (None, s1)
         | Inr rt \<Rightarrow>
             let item1 = item\<lparr>realtime := Some rt\<rparr>
             in if last_live s1 pid = Some (Num 0)
                then (Some item1, s1\<lparr>last_tx := (last_tx s1)(pid := None)\<rparr>)
                else (Some item1, s1))"

text \<open>Lines 138 to 151: the branch for a pump that is complete or idle.\<close>

definition complete_or_idle :: "int \<Rightarrow> pump_item \<Rightarrow> caches \<Rightarrow> pump_item \<times> caches" where
  "complete_or_idle pid item s =
     (case tx of
        None \<Rightarrow> (item, s)
      | Some t \<Rightarrow>
          let fixed = fix_price (tx_price_per_unit t);
              txd = t\<lparr>tx_price_per_unit := map_option of_int fixed\<rparr>
          in (item\<lparr>transaction := Some txd\<rparr>,
              s\<lparr>last_tx := (last_tx s)(pid \<mapsto> txd),
                meta := (meta s)(pid \<mapsto> \<lparr>m_price_per_unit = fixed, m_grade = tx_grade txd\<rparr>)\<rparr>))"

text \<open>
  The body of the loop over \<open>pump_statuses.items()\<close>, for one pump: the item appended
  to the frame, or none when the body raised, and the caches.
\<close>

definition process_pump ::
  "string \<Rightarrow> int \<Rightarrow> PumpStatusResponse \<Rightarrow> live_read \<Rightarrow> caches \<Rightarrow>
   pump_item option \<times> caches" where
  "process_pump now pid st live s =
     (let item = st_dict st;
          s0 = learn_meta pid s
      in if st_status st = DISPENSING then dispensing now pid live item s0
         else if st_status st = COMPLETE \<or> st_status st = IDLE then
           (case complete_or_idle pid item s0 of (item1, s1) \<Rightarrow> (Some item1, s1))
         else (Some item, s0))"

fun process_pumps ::
  "string \<Rightarrow> (int \<Rightarrow> live_read) \<Rightarrow> (int \<times> PumpStatusResponse) list \<Rightarrow>
   pump_item list \<times> caches \<Rightarrow> pump_item list \<times> caches" where
  "process_pumps now pm [] acc = acc"
| "process_pumps now pm ((pid, st) # rest) (items, s) =
     (case process_pump now pid st (pm pid) s of
        (None, s') \<Rightarrow> process_pumps now pm rest (items, s')
      | (Some item, s') \<Rightarrow> process_pumps now pm rest (items @ [item], s'))"


section \<open>The test frame (trash.py) and one tick of the socket loop\<close>

text \<open>
  \<open>get_frame\<close> reads the clock once, into \<open>current_time\<close>, and returns a literal. The
  numbers of the literal are the decimals as written.
\<close>

definition get_frame :: "string \<Rightarrow> frame" where
  "get_frame current_time =
     \<lparr>ts = current_time,
      pumps =
        [\<lparr>pump_id = 1, status = IDLE, last_updated = current_time, error_message = None,
          raw_status_code = Some ''0x6'', wire_format = Some ''0x61'', realtime = None,
          transaction = Some
            \<lparr>tx_pump_id = 1, tx_volume = Some 30, tx_price_per_unit = Some 8150,
             tx_total_amount = Some 244500, tx_grade = Some 0, tx_timestamp = current_time\<rparr>\<rparr>,
         \<lparr>pump_id = 2, status = CALLING, last_updated = current_time, error_message = None,
          raw_status_code = Some ''0x7'', wire_format = Some ''0x72'', realtime = None,
          transaction = None\<rparr>,
         \<lparr>pump_id = 3, status = AUTHORIZED_m, last_updated = current_time, error_message = None,
          raw_status_code = Some ''0x8'', wire_format = Some ''0x83'', realtime = None,
          transaction = None\<rparr>,
         \<lparr>pump_id = 4, status = DISPENSING, last_updated = current_time, error_message = None,
          raw_status_code = Some ''0x9'', wire_format = Some ''0x94'',
          realtime = Some
            \<lparr>rt_price_per_unit = Some 81500, rt_grade = Some 0, rt_timestamp = current_time,
             rt_total_amount = Some (Num 25400), rt_volume = Some (Num (3116 / 1000))\<rparr>,
          transaction = None\<rparr>,
         \<lparr>pump_id = 5, status = COMPLETE, last_updated = current_time, error_message = None,
          raw_status_code = Some ''0xA'', wire_format = Some ''0xA5'', realtime = None,
          transaction = Some
            \<lparr>tx_pump_id = 5, tx_volume = Some (15234 / 1000), tx_price_per_unit = Some 8150,
             tx_total_amount = Some (1241561 / 10), tx_grade = Some 0,
             tx_timestamp = current_time\<rparr>\<rparr>,
         \<lparr>pump_id = 6, status = STOPPED, last_updated = current_time, error_message = None,
          raw_status_code = Some ''0xC'', wire_format = Some ''0xC6'', realtime = None,
          transaction = None\<rparr>,
         \<lparr>pump_id = 7, status = ERROR, last_updated = current_time,
          error_message = Some ''Communication timeout'',
          raw_status_code = Some ''0x0'', wire_format = Some ''0x07'', realtime = None,
          transaction = None\<rparr>,
         \<lparr>pump_id = 8, status = OFFLINE_m, last_updated = current_time,
          error_message = Some ''No response from pump'',
          raw_status_code = None, wire_format = None, realtime = None,
          transaction = None\<rparr>]\<rparr>"

text \<open>
  One pass of the \<open>while True\<close> loop, lines 76 to 161. \<open>now\<close> is the clock read for the
  frame that the loop builds, \<open>current_time\<close> the clock that \<open>get_frame\<close> reads. The
  frame built from the statuses is a local that nothing reads after the loop; the caches
  keep what the pass stored. The result is the payload handed to \<open>hub.broadcast\<close>, the
  caches, the messages delivered and the registry.
\<close>

definition tick_payload ::
  "string \<Rightarrow> string \<Rightarrow> (int \<Rightarrow> live_read) \<Rightarrow> (int \<times> PumpStatusResponse) list \<Rightarrow>
   caches \<Rightarrow> frame \<times> caches" where
  "tick_payload now current_time pm statuses s =
     (case process_pumps now pm statuses ([], s) of
        (items, s') \<Rightarrow>
          let frame = \<lparr>ts = now, pumps = items\<rparr>
          in (get_frame current_time, s'))"

definition tick_with ::
  "(websocket \<Rightarrow> exc option) \<Rightarrow> string \<Rightarrow> string \<Rightarrow> (int \<Rightarrow> live_read) \<Rightarrow>
   (int \<times> PumpStatusResponse) list \<Rightarrow> websocket list \<times> caches \<Rightarrow>
   (websocket \<times> frame) list \<times> websocket list \<times> caches" where
  "tick_with send_json now current_time pm statuses hub_caches =
     (case hub_caches of
        (clients, s) \<Rightarrow>
          (case tick_payload now current_time pm statuses s of
             (payload, s') \<Rightarrow>
               (case broadcast send_json payload clients of
                  (sent, clients') \<Rightarrow> (sent, clients', s'))))"

text \<open>The loop as the source has it: \<open>pump_statuses = {}\<close>.\<close>

definition pump_statuses :: "(int \<times> PumpStatusResponse) list" where
  "pump_statuses = []"

definition pumps_socket_tick ::
  "(websocket \<Rightarrow> exc option) \<Rightarrow> string \<Rightarrow> string \<Rightarrow> (int \<Rightarrow> live_read) \<Rightarrow>
   websocket list \<times> caches \<Rightarrow> (websocket \<times> frame) list \<times> websocket list \<times> caches" where
  "pumps_socket_tick send_json now current_time pm hub_caches =
     tick_with send_json now current_time pm pump_statuses hub_caches"

text \<open>A pump record with its clock-derived fields blanked, to compare two frames.\<close>

definition without_times :: "pump_item \<Rightarrow> pump_item" where
  "without_times p =
     p\<lparr>last_updated := [],
       realtime := map_option (\<lambda>r. r\<lparr>rt_timestamp := []\<rparr>) (realtime p),
       transaction := map_option (\<lambda>t. t\<lparr>tx_timestamp := []\<rparr>) (transaction p)\<rparr>"


section \<open>Example values\<close>

text \<open>A pump that is dispensing, the same pump idle, a finished sale and empty caches.\<close>

definition dispensing_pump :: PumpStatusResponse where
  "dispensing_pump =
     \<lparr>st_pump_id = 1, st_status = DISPENSING, st_last_updated = ''2025-07-09T20:13:43'',
      st_error_message = None, st_raw_status_code = Some ''0x9'', st_wire_format = Some ''0x91''\<rparr>"

definition idle_pump :: PumpStatusResponse where
  "idle_pump =
     \<lparr>st_pump_id = 1, st_status = IDLE, st_last_updated = ''2025-07-09T20:13:43'',
      st_error_message = None, st_raw_status_code = Some ''0x6'', st_wire_format = Some ''0x61''\<rparr>"

definition sale :: TransactionData where
  "sale =
     \<lparr>tx_pump_id = 1, tx_volume = Some 30, tx_price_per_unit = Some 8150,
      tx_total_amount = Some 244500, tx_grade = Some 0, tx_timestamp = ''2025-07-09T20:13:44''\<rparr>"

definition no_caches :: caches where
  "no_caches = \<lparr>meta = Map.empty, last_live = Map.empty, last_tx = Map.empty\<rparr>"

section \<open>Properties of the codec\<close>

lemma nibble_bounds: "0 \<le> (x::int) AND 0xF" "(x::int) AND 0xF \<le> 15"
  by simp_all

lemma nibble_to_pump_id_total:
  "0 \<le> n \<Longrightarrow> n \<le> 15 \<Longrightarrow> \<exists>p. nibble_to_pump_id n = Inr p \<and> 1 \<le> p \<and> p \<le> 16"
  by (auto simp: nibble_to_pump_id_def)

lemma parse_single:
  "\<exists>pump_id status. parse_status_response [w] = Inr (pump_id, status) \<and>
     1 \<le> pump_id \<and> pump_id \<le> 16 \<and> 0 \<le> status \<and> status \<le> 15"
proof -
  obtain p where p: "nibble_to_pump_id (uint w AND 0xF) = Inr p" "1 \<le> p" "p \<le> 16"
    using nibble_to_pump_id_total [OF nibble_bounds] by blast
  have "parse_status_response [w] = Inr (p, drop_bit 4 (uint w) AND 0xF)"
    using p(1) by (simp add: parse_status_response_def Let_def)
  then show ?thesis using p(2,3) nibble_bounds [of "drop_bit 4 (uint w)"] by blast
qed

text \<open>
  C7. For every address \<open>a\<close> from 1 to 16, converting \<open>a\<close> to its nibble succeeds and
  converting that nibble back gives \<open>a\<close>; address 16 has nibble 0, addresses 1 and 15
  have themselves, and nibble 0 is address 16.
\<close>

theorem nibble_roundtrip:
  "(1 \<le> a \<and> a \<le> 16 \<longrightarrow> (\<exists>n. pump_id_to_nibble a = Inr n \<and> nibble_to_pump_id n = Inr a))
   \<and> pump_id_to_nibble 16 = Inr 0 \<and> pump_id_to_nibble 1 = Inr 1
   \<and> pump_id_to_nibble 15 = Inr 15 \<and> nibble_to_pump_id 0 = Inr 16"
  by (auto simp: pump_id_to_nibble_def nibble_to_pump_id_def)

theorem nibble_roundtrip_witness:
  "\<exists>n. pump_id_to_nibble 16 = Inr n \<and> nibble_to_pump_id n = Inr 16"
  using nibble_roundtrip [of 16] by simp

text \<open>
  C6. \<open>parse_status_response\<close> fails with the length error exactly when its input is
  not one byte long, so on no byte and on two bytes; on the byte 0x85 it returns
  address 5 and status code 0x8.
\<close>

theorem parse_status_response_length_error:
  "(parse_status_response response = Inl Invalid_status_response_length) = (length response \<noteq> 1)
   \<and> parse_status_response [] = Inl Invalid_status_response_length
   \<and> parse_status_response [b1, b2] = Inl Invalid_status_response_length
   \<and> parse_status_response [0x85] = Inr (5, 0x8)"
proof -
  have "parse_status_response response \<noteq> Inl Invalid_status_response_length"
    if "length response = 1"
  proof -
    from that obtain w where "response = [w]" by (cases response) auto
    then show ?thesis using parse_single [of w] by auto
  qed
  moreover have "parse_status_response response = Inl Invalid_status_response_length"
    if "length response \<noteq> 1"
    using that by (simp add: parse_status_response_def)
  moreover have "parse_status_response [0x85] = Inr (5, 0x8)"
    by (simp add: parse_status_response_def nibble_to_pump_id_def Let_def)
  ultimately show ?thesis by (auto simp: parse_status_response_def)
qed

theorem parse_status_response_length_error_witness:
  "parse_status_response [0x61, 0x62, 0x63] = Inl Invalid_status_response_length"
  using parse_status_response_length_error [of "[0x61, 0x62, 0x63]"] by simp

text \<open>
  C10. On every input of exactly one byte \<open>parse_status_response\<close> returns a pair and
  raises nothing: the address is between 1 and 16, the status code between 0 and 15.
\<close>

theorem parse_status_response_single_byte:
  "length response = 1 \<Longrightarrow>
   \<exists>pump_id status. parse_status_response response = Inr (pump_id, status) \<and>
     1 \<le> pump_id \<and> pump_id \<le> 16 \<and> 0 \<le> status \<and> status \<le> 15"
proof -
  assume "length response = 1"
  then obtain w where "response = [w]" by (cases response) auto
  then show ?thesis using parse_single [of w] by simp
qed

theorem parse_status_response_single_byte_witness:
  "\<exists>pump_id status. parse_status_response [0xD0] = Inr (pump_id, status) \<and>
     1 \<le> pump_id \<and> pump_id \<le> 16 \<and> 0 \<le> status \<and> status \<le> 15"
  using parse_status_response_single_byte [of "[0xD0]"] by simp

text \<open>
  C2, as it holds of the scanner. \<open>status_code_to_enum\<close> gives every integer one
  status of the scanner's enumeration: 0x0 is DATA_ERROR, 0x6 OFF, 0x7 CALL,
  0x8 AUTHORIZED, 0x9 BUSY, 0xA PEOT, 0xB FEOT, 0xC STOP, and a code is OFFLINE exactly
  when it is none of these eight. The enumeration has no ERROR and no COMPLETE member.
\<close>

theorem status_code_to_enum_table:
  "status_code_to_enum 0x0 = DATA_ERROR \<and> status_code_to_enum 0x6 = OFF
   \<and> status_code_to_enum 0x7 = CALL \<and> status_code_to_enum 0x8 = AUTHORIZED
   \<and> status_code_to_enum 0x9 = BUSY \<and> status_code_to_enum 0xA = PEOT
   \<and> status_code_to_enum 0xB = FEOT \<and> status_code_to_enum 0xC = STOP
   \<and> (status_code_to_enum c = OFFLINE) = (c \<notin> {0x0, 0x6, 0x7, 0x8, 0x9, 0xA, 0xB, 0xC})"
  by (simp add: status_code_to_enum_def status_map_def)

theorem status_code_to_enum_table_witness:
  "status_code_to_enum 0x5 = OFFLINE"
  using status_code_to_enum_table [of "0x5"] by simp

text \<open>
  Codes 0x0 and 0xD do not map to one state, nor do 0xA and 0xB; 0xD and 0xF, which
  are outside the table, map to OFFLINE.
\<close>

theorem status_code_to_enum_not_collapsed:
  "status_code_to_enum 0x0 \<noteq> status_code_to_enum 0xD
   \<and> status_code_to_enum 0xA \<noteq> status_code_to_enum 0xB
   \<and> status_code_to_enum 0xD = OFFLINE \<and> status_code_to_enum 0xF = OFFLINE"
  by (simp add: status_code_to_enum_def status_map_def)

section \<open>Properties of the price repair\<close>

lemma py_round_of_int: "py_round (of_int n) = n"
  by (simp add: py_round_def Let_def)

text \<open>
  C5, as it holds of \<open>fix_price\<close>. An integer price above 9999 that is a multiple of 10
  with its tenth between 1000 and 9999 is replaced by its tenth, and every other integer
  price is returned as it is; a price that is not an integer is first rounded to the
  nearest integer and treated as that integer; no price stays no price. 8150 gives 8150,
  81500 gives 8150 and 12345 gives 12345.
\<close>

theorem fix_price_integer_prices:
  "fix_price (Some (of_int n)) =
     Some (if n > 9999 \<and> n mod 10 = 0 \<and> 1000 \<le> n div 10 \<and> n div 10 \<le> 9999 then n div 10 else n)
   \<and> fix_price (Some x) = fix_price (Some (of_int (py_round x)))
   \<and> fix_price None = None
   \<and> fix_price (Some 8150) = Some 8150
   \<and> fix_price (Some 81500) = Some 8150
   \<and> fix_price (Some 12345) = Some 12345"
proof -
  have ints: "fix_price (Some (of_int n)) =
     Some (if n > 9999 \<and> n mod 10 = 0 \<and> 1000 \<le> n div 10 \<and> n div 10 \<le> 9999 then n div 10 else n)"
    for n
    by (simp add: fix_price_def py_round_of_int Let_def)
  have rounded: "fix_price (Some x) = fix_price (Some (of_int (py_round x)))"
    by (simp add: fix_price_def py_round_of_int Let_def)
  have "fix_price (Some 8150) = Some 8150" using ints [of 8150] by simp
  moreover have "fix_price (Some 81500) = Some 8150" using ints [of 81500] by simp
  moreover have "fix_price (Some 12345) = Some 12345" using ints [of 12345] by simp
  ultimately show ?thesis using ints rounded by (simp add: fix_price_def)
qed

theorem fix_price_integer_prices_witness:
  "fix_price (Some 99990) = Some 9999 \<and> fix_price (Some 100000) = Some 100000"
proof -
  have "fix_price (Some (of_int 99990)) = Some 9999"
    using fix_price_integer_prices [of 99990, THEN conjunct1] by simp
  moreover have "fix_price (Some (of_int 100000)) = Some 100000"
    using fix_price_integer_prices [of 100000, THEN conjunct1] by simp
  ultimately show ?thesis by simp
qed

text \<open>
  The price 8150.25 does not match the pattern and is not returned as it is: the result
  is 8150. The price 81499.75 is no multiple of 10 and is replaced by 8150.
\<close>

theorem fix_price_rounds_fractional_price:
  "fix_price (Some (32601 / 4)) = Some 8150 \<and> (of_int 8150 :: rat) \<noteq> 32601 / 4
   \<and> fix_price (Some (325999 / 4)) = Some 8150"
  by code_simp

section \<open>Properties of the hub\<close>

lemma send_loop_filter:
  "send_loop send_json msg clients (sent, dc) =
     (sent @ map (\<lambda>ws. (ws, msg)) [ws \<leftarrow> clients. send_json ws = None],
      dc @ [ws \<leftarrow> clients. send_json ws \<noteq> None])"
  by (induction clients arbitrary: sent dc) (auto split: option.splits)

lemma remove_loop_filter:
  "remove_loop dc clients = [c \<leftarrow> clients. c \<notin> set dc]"
proof (induction dc arbitrary: clients)
  case Nil
  then show ?case by simp
next
  case (Cons ws dc)
  have "[c \<leftarrow> disconnect ws clients. c \<notin> set dc] = [c \<leftarrow> clients. c \<notin> set (ws # dc)]"
    by (induction clients) (auto simp: disconnect_def)
  with Cons show ?case by simp
qed

lemma broadcast_filter:
  "broadcast send_json payload clients =
     (map (\<lambda>ws. (ws, payload)) [ws \<leftarrow> clients. send_json ws = None],
      [ws \<leftarrow> clients. send_json ws = None])"
proof -
  have "[c \<leftarrow> clients. c \<notin> set [ws \<leftarrow> clients. send_json ws \<noteq> None]] =
        [ws \<leftarrow> clients. send_json ws = None]"
    by (rule filter_cong) auto
  then show ?thesis
    by (simp add: broadcast_def send_loop_filter remove_loop_filter)
qed

text \<open>
  C9. \<open>broadcast\<close> returns, whatever the sends do: the message is delivered, in registry
  order, to exactly the subscribers whose send does not raise, and the registry it leaves
  holds exactly those subscribers; a later broadcast delivers only to subscribers that
  did not fail in the first one. With three subscribers of which one fails, two messages
  are delivered and two subscribers remain.
\<close>

theorem broadcast_isolates_failures:
  "broadcast send_json payload clients =
     (map (\<lambda>ws. (ws, payload)) [ws \<leftarrow> clients. send_json ws = None],
      [ws \<leftarrow> clients. send_json ws = None])
   \<and> fst (broadcast send_json' payload' (snd (broadcast send_json payload clients))) =
       map (\<lambda>ws. (ws, payload')) [ws \<leftarrow> clients. send_json ws = None \<and> send_json' ws = None]"
  by (simp add: broadcast_filter conj_commute)

theorem broadcast_isolates_failures_witness:
  "broadcast (\<lambda>ws. if ws = 2 then Some ConnectionResetError else None) (get_frame ''t'') [1, 2, 3] =
     ([(1, get_frame ''t''), (3, get_frame ''t'')], [1, 3])
   \<and> fst (broadcast (\<lambda>ws. None) (get_frame ''u'')
        (snd (broadcast (\<lambda>ws. if ws = 2 then Some ConnectionResetError else None)
               (get_frame ''t'') [1, 2, 3]))) =
     [(1, get_frame ''u''), (3, get_frame ''u'')]"
proof -
  let ?send = "\<lambda>ws::nat. if ws = 2 then Some ConnectionResetError else None"
  let ?later = "\<lambda>ws::nat. None :: exc option"
  note inst = broadcast_isolates_failures
    [of ?send "get_frame ''t''" "[1, 2, 3]" ?later "get_frame ''u''"]
  have first: "broadcast ?send (get_frame ''t'') [1, 2, 3] =
      ([(1, get_frame ''t''), (3, get_frame ''t'')], [1, 3])"
    using inst [THEN conjunct1] by simp
  have second:
    "fst (broadcast ?later (get_frame ''u'') (snd (broadcast ?send (get_frame ''t'') [1, 2, 3]))) =
      [(1, get_frame ''u''), (3, get_frame ''u'')]"
    using inst [THEN conjunct2] by simp
  show ?thesis using first second by blast
qed


section \<open>Properties of the scan\<close>

lemma parse_Inr_single: "parse_status_response response = Inr r \<Longrightarrow> \<exists>w. response = [w]"
  by (cases response; cases "tl response") (auto simp: parse_status_response_def split: if_splits)

lemma build_status_command_ok:
  "1 \<le> a \<Longrightarrow> a \<le> 16 \<Longrightarrow> \<exists>command. build_status_command a = Inr command"
  by (auto simp: build_status_command_def pump_id_to_nibble_def)

lemma handle_response_mismatch:
  assumes "parse_status_response response = Inr (response_pump_id, status_code)"
    and "response_pump_id \<noteq> pump_address"
  shows "handle_response pump_address response s =
     s\<lparr>scan_log := scan_log s @
        [Info_response_received response_pump_id status_code (status_code_to_enum status_code),
         Warning_pump_ID_mismatch pump_address response_pump_id]\<rparr>"
proof -
  from assms(1) obtain w where "response = [w]" using parse_Inr_single by blast
  then have "response \<noteq> []" by simp
  then show ?thesis using assms
    by (simp add: handle_response_def logger_def Let_def)
qed

text \<open>A pump enters the discovered list only at the probe of its own address, on an echo of it.\<close>

lemma handle_response_discovered:
  "d \<in> set (discovered_pumps (handle_response a response s)) \<Longrightarrow>
   d \<in> set (discovered_pumps s) \<or>
   (d_address d = a \<and> (\<exists>code. parse_status_response response = Inr (a, code)))"
  by (auto simp: handle_response_def logger_def Let_def split: if_splits sum.splits prod.splits)

lemma probe_discovered:
  "probe io a s = Inr s' \<Longrightarrow> d \<in> set (discovered_pumps s') \<Longrightarrow>
   d \<in> set (discovered_pumps s) \<or>
   (d_address d = a \<and> (\<exists>response code. io = Read_returns response \<and>
       parse_status_response response = Inr (a, code)))"
  using handle_response_discovered [of d a _ s]
  by (auto simp: probe_def logger_def split: sum.splits probe_io.splits)

lemma scan_loop_discovered:
  "scan_loop bus as s = Inr s' \<Longrightarrow> d \<in> set (discovered_pumps s') \<Longrightarrow>
   d \<in> set (discovered_pumps s) \<or>
   (\<exists>response code. bus (d_address d) = Read_returns response \<and>
       parse_status_response response = Inr (d_address d, code))"
proof (induction as arbitrary: s)
  case Nil
  then show ?case by simp
next
  case (Cons a as)
  from Cons.prems(1) obtain s1
    where s1: "probe (bus a) a s = Inr s1" "scan_loop bus as s1 = Inr s'"
    by (auto split: sum.splits)
  from Cons.IH [OF s1(2) Cons.prems(2)] show ?case
  proof
    assume "d \<in> set (discovered_pumps s1)"
    from probe_discovered [OF s1(1) this] show ?thesis by auto
  next
    assume "\<exists>response code. bus (d_address d) = Read_returns response \<and>
       parse_status_response response = Inr (d_address d, code)"
    then show ?thesis by simp
  qed
qed

lemma main_mismatch_not_discovered:
  assumes "main bus = Inr s"
    and "bus a = Read_returns response"
    and "parse_status_response response = Inr (response_pump_id, status_code)"
    and "response_pump_id \<noteq> a"
  shows "a \<notin> d_address ` set (discovered_pumps s)"
proof
  assume "a \<in> d_address ` set (discovered_pumps s)"
  then obtain d where d: "d \<in> set (discovered_pumps s)" "d_address d = a" by auto
  from assms(1) have "scan_loop bus [fst ADDRESS_RANGE..snd ADDRESS_RANGE]
       \<lparr>discovered_pumps = [], scan_log = []\<rparr> = Inr s"
    by (simp add: main_def)
  from scan_loop_discovered [OF this d(1)] d(2) assms(2,3,4) show False by auto
qed

text \<open>
  C8. When the probe of an address from 1 to 16 reads a response that parses and echoes
  another address, the probe logs the response and the mismatch warning and leaves the
  discovered list as it was, so it adds neither the polled nor the echoed address; and a
  scan that read such a response for an address ends without that address in its list.
\<close>

theorem probe_address_mismatch:
  assumes "1 \<le> pump_address" and "pump_address \<le> 16"
    and "parse_status_response response = Inr (response_pump_id, status_code)"
    and "response_pump_id \<noteq> pump_address"
  shows "probe (Read_returns response) pump_address s =
     Inr (s\<lparr>scan_log := scan_log s @
        [Info_response_received response_pump_id status_code (status_code_to_enum status_code),
         Warning_pump_ID_mismatch pump_address response_pump_id]\<rparr>)
   \<and> (bus pump_address = Read_returns response \<and> main bus = Inr s' \<longrightarrow>
        pump_address \<notin> d_address ` set (discovered_pumps s'))"
proof -
  obtain command where "build_status_command pump_address = Inr command"
    using build_status_command_ok [OF assms(1,2)] by blast
  then have "probe (Read_returns response) pump_address s =
     Inr (s\<lparr>scan_log := scan_log s @
        [Info_response_received response_pump_id status_code (status_code_to_enum status_code),
         Warning_pump_ID_mismatch pump_address response_pump_id]\<rparr>)"
    using handle_response_mismatch [OF assms(3,4)] by (simp add: probe_def)
  then show ?thesis
    using main_mismatch_not_discovered [OF _ _ assms(3,4)] by blast
qed

theorem probe_address_mismatch_witness:
  "probe (Read_returns [0x67]) 3 \<lparr>discovered_pumps = [], scan_log = []\<rparr> =
     Inr \<lparr>discovered_pumps = [],
          scan_log = [Info_response_received 7 6 OFF, Warning_pump_ID_mismatch 3 7]\<rparr>"
proof -
  have parsed: "parse_status_response [0x67] = Inr (7, 6)"
    by (simp add: parse_status_response_def nibble_to_pump_id_def Let_def)
  have "status_code_to_enum 6 = OFF"
    by (simp add: status_code_to_enum_def status_map_def)
  then show ?thesis
    using probe_address_mismatch
      [of 3 "[0x67]" 7 6 "\<lparr>discovered_pumps = [], scan_log = []\<rparr>", OF _ _ parsed]
    by simp
qed

text \<open>
  The whole scan on a bus that answers only the poll of address 3, with a byte that echoes
  address 7: nothing is discovered.
\<close>

lemma upto_1_16: "[1..16::int] = [1, 2, 3, 4, 5, 6, 7, 8, 9, 10, 11, 12, 13, 14, 15, 16]"
  by code_simp

lemma main_mismatch_example:
  "main (\<lambda>a. if a = 3 then Read_returns [0x67] else Read_returns []) =
     Inr \<lparr>discovered_pumps = [],
          scan_log = [Info_no_response 1, Info_no_response 2,
            Info_response_received 7 6 OFF, Warning_pump_ID_mismatch 3 7,
            Info_no_response 4, Info_no_response 5, Info_no_response 6, Info_no_response 7,
            Info_no_response 8, Info_no_response 9, Info_no_response 10, Info_no_response 11,
            Info_no_response 12, Info_no_response 13, Info_no_response 14, Info_no_response 15,
            Info_no_response 16]\<rparr>"
proof -
  have "parse_status_response [0x67] = Inr (7, 6)"
    by (simp add: parse_status_response_def nibble_to_pump_id_def Let_def)
  then show ?thesis
    by (simp add: main_def ADDRESS_RANGE_def upto_1_16 probe_def build_status_command_def
        pump_id_to_nibble_def handle_response_def logger_def status_code_to_enum_def
        status_map_def)
qed


section \<open>Properties of the tick\<close>

lemma tick_payload_frame:
  "fst (tick_payload now current_time pm statuses s) = get_frame current_time"
  by (simp add: tick_payload_def split: prod.splits)

text \<open>
  C3, as it holds of the loop. Whatever the statuses, the live reads and the caches are,
  the payload handed to \<open>broadcast\<close> is the frame of \<open>get_frame\<close> and every message
  delivered is that frame, also with the empty statuses of the source. Its \<open>pumps\<close>
  field has 8 records and depends on the clock that \<open>get_frame\<close> reads and on nothing
  else: with \<open>last_updated\<close> and the timestamp of each \<open>transaction\<close> and
  \<open>realtime\<close> entry blanked, the records of two ticks are the same, and the \<open>pumps\<close>
  fields of two ticks are equal exactly when the two clock readings are.
\<close>

theorem tick_payload_is_test_frame:
  "fst (tick_payload now current_time pm statuses s) = get_frame current_time
   \<and> snd ` set (fst (tick_with send_json now current_time pm statuses (clients, s)))
        \<subseteq> {get_frame current_time}
   \<and> snd ` set (fst (pumps_socket_tick send_json now current_time pm (clients, s)))
        \<subseteq> {get_frame current_time}
   \<and> length (pumps (get_frame current_time)) = 8
   \<and> map without_times (pumps (get_frame current_time)) =
       map without_times (pumps (get_frame current_time'))
   \<and> (pumps (get_frame current_time) = pumps (get_frame current_time')) =
       (current_time = current_time')"
proof -
  have delivered:
    "snd ` set (fst (tick_with send_json now current_time pm sts (clients, s)))
       \<subseteq> {get_frame current_time}" for sts
    using tick_payload_frame [of now current_time pm sts s]
    by (auto simp: tick_with_def broadcast_filter split: prod.splits)
  have shipped:
    "snd ` set (fst (pumps_socket_tick send_json now current_time pm (clients, s)))
       \<subseteq> {get_frame current_time}"
    unfolding pumps_socket_tick_def by (rule delivered)
  have eight: "length (pumps (get_frame current_time)) = 8"
    by (simp add: get_frame_def)
  have blanked: "map without_times (pumps (get_frame current_time)) =
      map without_times (pumps (get_frame current_time'))"
    by (simp add: get_frame_def without_times_def)
  have clock: "(pumps (get_frame current_time) = pumps (get_frame current_time')) =
      (current_time = current_time')"
    by (auto simp: get_frame_def)
  show ?thesis
    by (intro conjI tick_payload_frame delivered shipped eight blanked clock)
qed

theorem tick_payload_is_test_frame_witness:
  "fst (tick_payload ''2025-07-09T15:13:43+00:00'' ''2025-07-09T15:13:44+00:00''
      (\<lambda>pid. Live_returns (Some (Num 3))) [(1, dispensing_pump)] no_caches) =
   get_frame ''2025-07-09T15:13:44+00:00''"
  using tick_payload_is_test_frame
    [of "''2025-07-09T15:13:43+00:00''" "''2025-07-09T15:13:44+00:00''"
        "\<lambda>pid. Live_returns (Some (Num 3))" "[(1, dispensing_pump)]" no_caches]
  by simp

text \<open>
  Two ticks one second apart, with the same empty statuses and caches, hand \<open>broadcast\<close>
  frames whose \<open>pumps\<close> fields differ.
\<close>

theorem tick_pumps_differ_between_ticks:
  "pumps (fst (tick_payload ''2025-07-09T15:13:43+00:00'' ''2025-07-09T15:13:43+00:00''
      (\<lambda>pid. Live_raises) pump_statuses no_caches))
   \<noteq> pumps (fst (tick_payload ''2025-07-09T15:13:44+00:00'' ''2025-07-09T15:13:44+00:00''
      (\<lambda>pid. Live_raises) pump_statuses no_caches))"
  by (simp add: tick_payload_def pump_statuses_def get_frame_def)

section \<open>Properties of the float arithmetic\<close>

lemma quotient_of_pos:
  assumes "0 < x" and "quotient_of x = (a, b)"
  shows "0 < a" "0 < b" "x = of_int a / of_int b"
proof -
  show b: "0 < b" using assms(2) quotient_of_denom_pos by blast
  show x: "x = of_int a / of_int b" using assms(2) by (simp add: quotient_of_div)
  show "0 < a" using assms(1) b x by (simp add: zero_less_divide_iff)
qed

lemma bitlen_powi:
  assumes "0 < (a::int)"
  shows "(2::rat) powi (bitlen a - 1) \<le> of_int a" "(of_int a :: rat) < 2 powi (bitlen a)"
proof -
  from assms have pos: "1 \<le> bitlen a" by (auto simp: bitlen_alt_def)
  have b: "2 ^ nat (bitlen a - 1) \<le> a" "a < 2 ^ nat (bitlen a)"
    using bitlen_bounds [OF assms] by auto
  have "(2::rat) powi (bitlen a - 1) = of_int (2 ^ nat (bitlen a - 1))"
    using pos by (simp add: power_int_nonneg_exp)
  also have "\<dots> \<le> of_int a" using b(1) by (simp only: of_int_le_iff)
  finally show "(2::rat) powi (bitlen a - 1) \<le> of_int a" .
  have "(of_int a :: rat) < of_int (2 ^ nat (bitlen a))" using b(2) by (simp only: of_int_less_iff)
  also have "\<dots> = 2 powi (bitlen a)" using pos by (simp add: power_int_nonneg_exp)
  finally show "(of_int a :: rat) < 2 powi (bitlen a)" .
qed

text \<open>\<open>ilog2\<close> is the binary exponent.\<close>

lemma ilog2_bounds:
  assumes "0 < x"
  shows "2 powi (ilog2 x) \<le> x" and "x < 2 powi (ilog2 x + 1)"
proof -
  obtain a b where q: "quotient_of x = (a, b)" by (cases "quotient_of x")
  note ab = quotient_of_pos [OF assms q]
  let ?k = "bitlen a - bitlen b"
  have lo: "(2::rat) powi (?k - 1) \<le> x"
  proof -
    have "(2::rat) powi (?k - 1) = 2 powi (bitlen a - 1) / 2 powi (bitlen b)"
      by (simp add: power_int_diff)
    also have "\<dots> \<le> of_int a / 2 powi (bitlen b)"
      using bitlen_powi(1) [OF ab(1)] by (simp add: divide_right_mono)
    also have "\<dots> \<le> of_int a / of_int b"
      using bitlen_powi(2) [OF ab(2)] ab(1,2) by (simp add: frac_le)
    finally show ?thesis using ab(3) by simp
  qed
  have hi: "x < (2::rat) powi (?k + 1)"
  proof -
    have "x = of_int a / of_int b" by (rule ab(3))
    also have "\<dots> < 2 powi (bitlen a) / of_int b"
      using bitlen_powi(2) [OF ab(1)] ab(2) by (simp add: divide_strict_right_mono)
    also have "\<dots> \<le> 2 powi (bitlen a) / 2 powi (bitlen b - 1)"
      using bitlen_powi(1) [OF ab(2)] by (simp add: frac_le)
    also have "\<dots> = 2 powi (bitlen a - (bitlen b - 1))"
      by (rule power_int_diff [symmetric]) simp
    also have "bitlen a - (bitlen b - 1) = ?k + 1" by simp
    finally show ?thesis .
  qed
  show "2 powi (ilog2 x) \<le> x" and "x < 2 powi (ilog2 x + 1)"
    using lo hi by (auto simp: ilog2_def q Let_def)
qed

lemma powi_less_cancel: "(2::rat) powi a < 2 powi b \<Longrightarrow> a < b"
  by (rule ccontr) (simp add: not_less power_int_increasing leD)

lemma ilog2_less: "0 < x \<Longrightarrow> x < 2 powi k \<Longrightarrow> ilog2 x < k"
  using ilog2_bounds(1) [of x] powi_less_cancel [of "ilog2 x" k] by simp

lemma ilog2_ge: "0 < x \<Longrightarrow> 2 powi k \<le> x \<Longrightarrow> k \<le> ilog2 x"
  using ilog2_bounds(2) [of x] powi_less_cancel [of k "ilog2 x + 1"] by simp

lemma py_round_ge_floor: "\<lfloor>x\<rfloor> \<le> py_round x"
  by (simp add: py_round_def Let_def)

lemma py_round_int_mult: "py_round (of_int n * 2 ^ k) = n * 2 ^ k"
  using py_round_of_int [of "n * 2 ^ k"] by simp

lemma abs_of_int_bounds:
  assumes "n \<noteq> 0" and "\<bar>n\<bar> < 2 ^ 53"
  shows "2 powi 0 \<le> \<bar>of_int n :: rat\<bar>" and "\<bar>of_int n :: rat\<bar> < 2 powi 53"
proof -
  from assms(1) have "1 \<le> \<bar>n\<bar>" by linarith
  then have "(of_int 1 :: rat) \<le> of_int \<bar>n\<bar>" by (simp only: of_int_le_iff)
  then show "2 powi 0 \<le> \<bar>of_int n :: rat\<bar>" by simp
  from assms(2) have "(of_int \<bar>n\<bar> :: rat) < of_int (2 ^ 53)" by (simp only: of_int_less_iff)
  then show "\<bar>of_int n :: rat\<bar> < 2 powi 53" by simp
qed

lemma round_to_double_scaled:
  assumes "x \<noteq> 0" and "max (ilog2 \<bar>x\<bar>) (- 1022) - 52 = - int k"
    and "x * 2 ^ k = of_int m"
  shows "round_to_double x = x"
proof -
  have p: "(2::rat) powi (- int k) = inverse (2 ^ k)"
    by (simp add: power_int_minus)
  have "x / inverse (2 ^ k) = of_int m" using assms(3) by (simp add: divide_inverse)
  then have "of_int (py_round (x / inverse (2 ^ k))) * inverse (2 ^ k) = x * 2 ^ k * inverse (2 ^ k)"
    using assms(3) by (simp only: py_round_of_int)
  also have "\<dots> = x" by simp
  finally show ?thesis
    using assms(1,2) by (simp only: round_to_double_def Let_def p if_False)
qed

lemma float_of_int_exact:
  assumes "\<bar>n\<bar> < 2 ^ 53"
  shows "float_of_int n = Inr (Num (of_int n))"
proof (cases "n = 0")
  case True
  then show ?thesis by (simp add: float_of_int_def to_float_def round_to_double_def)
next
  case False
  let ?x = "of_int n :: rat"
  let ?e = "ilog2 \<bar>?x\<bar>"
  have pos: "0 < \<bar>?x\<bar>" using False by simp
  have e0: "0 \<le> ?e" using ilog2_ge [OF pos abs_of_int_bounds(1) [OF False assms]] .
  have e53: "?e < 53" using ilog2_less [OF pos abs_of_int_bounds(2) [OF False assms]] .
  have q: "max ?e (- 1022) - 52 = - int (nat (52 - ?e))" using e0 e53 by simp
  have m: "?x * 2 ^ nat (52 - ?e) = of_int (n * 2 ^ nat (52 - ?e))" by simp
  have nz: "?x \<noteq> 0" using False by simp
  have r: "round_to_double ?x = ?x" by (rule round_to_double_scaled [OF nz q m])
  show ?thesis using nz e53 by (simp add: float_of_int_def to_float_def r)
qed

text \<open>A normal positive value rounds to at least the power of two below it.\<close>

lemma round_to_double_ge:
  assumes "0 < x" and "- 1022 \<le> ilog2 x"
  shows "2 powi (ilog2 x) \<le> round_to_double x"
proof -
  let ?e = "ilog2 x"
  let ?q = "?e - 52"
  let ?a = "x / 2 powi ?q"
  have q: "max (ilog2 \<bar>x\<bar>) (- 1022) - 52 = ?q" using assms by simp
  have pq: "(0::rat) < 2 powi ?q" by simp
  have split: "(2::rat) powi ?e = 2 powi 52 * 2 powi ?q"
    using power_int_add [of "2::rat" 52 ?q] by simp
  have "(2::rat) powi 52 * 2 powi ?q \<le> x"
    using ilog2_bounds(1) [OF assms(1)] by (simp only: split)
  then have "(2::rat) powi 52 \<le> ?a" using pq by (simp add: pos_le_divide_eq)
  then have "(of_int (2 ^ 52) :: rat) \<le> ?a" by simp
  then have "2 ^ 52 \<le> \<lfloor>?a\<rfloor>" by (simp only: le_floor_iff)
  then have "2 ^ 52 \<le> py_round ?a" using py_round_ge_floor [of ?a] by linarith
  then have "(of_int (2 ^ 52) :: rat) \<le> of_int (py_round ?a)" by (simp only: of_int_le_iff)
  then have "(2::rat) powi 52 \<le> of_int (py_round ?a)" by simp
  then have "(2::rat) powi 52 * 2 powi ?q \<le> of_int (py_round ?a) * 2 powi ?q"
    using pq by (simp only: mult_le_cancel_right_pos)
  moreover have "round_to_double x = of_int (py_round ?a) * 2 powi ?q"
    using assms(1) q by (simp add: round_to_double_def Let_def)
  ultimately show ?thesis by (simp only: split)
qed

lemma of_int_pos_normal:
  assumes "0 < n"
  shows "0 < (of_int n :: rat)" and "0 \<le> ilog2 (of_int n)"
proof -
  show pos: "0 < (of_int n :: rat)" using assms by simp
  from assms have "1 \<le> n" by linarith
  then have "(of_int 1 :: rat) \<le> of_int n" by (simp only: of_int_le_iff)
  then have "2 powi 0 \<le> (of_int n :: rat)" by simp
  then show "0 \<le> ilog2 (of_int n)" by (rule ilog2_ge [OF pos])
qed

text \<open>The float of a positive integer is finite and positive, when there is one.\<close>

lemma float_of_int_positive:
  assumes "0 < n" and "float_of_int n = Inr f"
  shows "\<exists>y. f = Num y \<and> 0 < y"
proof -
  note x = of_int_pos_normal [OF assms(1)]
  have "(0::rat) < 2 powi (ilog2 (of_int n))" by simp
  also have "\<dots> \<le> round_to_double (of_int n)"
    using x by (intro round_to_double_ge) simp_all
  finally have "0 < round_to_double (of_int n)" .
  then show ?thesis using assms(2)
    by (auto simp: float_of_int_def to_float_def Let_def split: if_splits number.splits)
qed

text \<open>An integer from \<open>2 ^ 1024\<close> on has no float: the conversion raises.\<close>

lemma float_of_int_overflow:
  assumes "2 ^ 1024 \<le> n"
  shows "float_of_int n = Inl OverflowError"
proof -
  let ?x = "of_int n :: rat"
  let ?y = "round_to_double ?x"
  have "(0::int) < 2 ^ 1024" by simp
  with assms have npos: "0 < n" by linarith
  note x = of_int_pos_normal [OF npos]
  have "(of_int (2 ^ 1024) :: rat) \<le> ?x" using assms by (simp only: of_int_le_iff)
  then have big: "2 powi 1024 \<le> ?x" by simp
  have e: "1024 \<le> ilog2 ?x" by (rule ilog2_ge [OF x(1) big])
  have "(2::rat) powi 1024 \<le> 2 powi (ilog2 ?x)"
    using e by (intro power_int_increasing) simp_all
  also have "\<dots> \<le> ?y" using x by (intro round_to_double_ge) simp_all
  finally have y: "2 powi 1024 \<le> ?y" .
  have "(0::rat) < 2 powi 1024" by simp
  with y have ypos: "0 < ?y" by linarith
  then have "1024 \<le> ilog2 \<bar>?y\<bar>" using y by (intro ilog2_ge) simp_all
  then show ?thesis using ypos
    by (simp add: float_of_int_def to_float_def Let_def)
qed

section \<open>Properties of the per-pump pass\<close>

lemma learn_meta_id: "learn_meta pid s = s"
  by (simp add: learn_meta_def tx_def)

lemma complete_or_idle_id: "complete_or_idle pid item s = (item, s)"
  by (simp add: complete_or_idle_def tx_def)

lemma read_live_meta: "meta (read_live pid live s) = meta s"
  by (simp add: read_live_def split: live_read.splits option.splits)

lemma read_live_last_tx: "last_tx (read_live pid live s) = last_tx s"
  by (simp add: read_live_def split: live_read.splits option.splits)

lemma read_live_last_live:
  "last_live (read_live pid live s) =
     (case live of Live_returns (Some v) \<Rightarrow> (last_live s)(pid \<mapsto> v) | _ \<Rightarrow> last_live s)"
  by (simp add: read_live_def split: live_read.splits option.splits)

lemma read_live_cached_price: "cached_price (read_live pid live s) = cached_price s"
  by (rule ext) (simp add: cached_price_def read_live_meta)

lemma process_pump_dispensing:
  "st_status st = DISPENSING \<Longrightarrow>
   process_pump now pid st live s = dispensing now pid live (st_dict st) s"
  by (simp add: process_pump_def learn_meta_id Let_def)

lemma process_pump_other:
  "st_status st \<noteq> DISPENSING \<Longrightarrow> process_pump now pid st live s = (Some (st_dict st), s)"
  by (simp add: process_pump_def learn_meta_id complete_or_idle_id Let_def)

lemma float_of_int_error: "float_of_int n = Inl e \<Longrightarrow> e = OverflowError"
  by (auto simp: float_of_int_def split: number.splits)

text \<open>The record of a pump with a positive cached price and a cached live value.\<close>

lemma make_rt_priced:
  assumes "cached_price s pid = Some pr" and "0 < pr" and "last_live s pid = Some v"
  shows "float_of_int pr = Inr price_f \<Longrightarrow>
     make_rt now pid s =
       Inr \<lparr>rt_price_per_unit = Some pr,
            rt_grade = (case meta s pid of None \<Rightarrow> None | Some m \<Rightarrow> m_grade m),
            rt_timestamp = now,
            rt_total_amount = Some (float_mul (round_ndigits v 2) (Num 1000)),
            rt_volume = Some (round_ndigits
              (ieee_div (float_mul (round_ndigits v 2) (Num 1000)) price_f) 3)\<rparr>"
    and "float_of_int pr = Inl e \<Longrightarrow> make_rt now pid s = Inl e"
proof -
  show "make_rt now pid s = Inl e" if "float_of_int pr = Inl e"
    using assms that by (simp add: make_rt_def Let_def)
  show "make_rt now pid s =
       Inr \<lparr>rt_price_per_unit = Some pr,
            rt_grade = (case meta s pid of None \<Rightarrow> None | Some m \<Rightarrow> m_grade m),
            rt_timestamp = now,
            rt_total_amount = Some (float_mul (round_ndigits v 2) (Num 1000)),
            rt_volume = Some (round_ndigits
              (ieee_div (float_mul (round_ndigits v 2) (Num 1000)) price_f) 3)\<rparr>"
    if f: "float_of_int pr = Inr price_f"
  proof -
    from float_of_int_positive [OF assms(2) f] have "price_f \<noteq> Num 0" by auto
    then show ?thesis using assms f
      by (simp add: make_rt_def Let_def float_truediv_def)
  qed
qed

text \<open>The record is not built exactly when the conversion of a positive price overflows.\<close>

lemma make_rt_raises_iff:
  "(\<exists>e. make_rt now pid s = Inl e) =
   (\<exists>pr. cached_price s pid = Some pr \<and> 0 < pr \<and> last_live s pid \<noteq> None \<and>
      float_of_int pr = Inl OverflowError)"
proof (cases "last_live s pid")
  case None
  then show ?thesis by (simp add: make_rt_def Let_def)
next
  case (Some v)
  show ?thesis
  proof (cases "cached_price s pid")
    case None
    then show ?thesis using Some by (simp add: make_rt_def Let_def)
  next
    case (Some pr)
    show ?thesis
    proof (cases "0 < pr")
      case False
      then show ?thesis using Some \<open>last_live s pid = Some v\<close>
        by (simp add: make_rt_def Let_def)
    next
      case True
      note priced = make_rt_priced [OF Some True \<open>last_live s pid = Some v\<close>, of _ now]
      show ?thesis
      proof (cases "float_of_int pr")
        case (Inl e)
        then have "e = OverflowError" by (rule float_of_int_error)
        then show ?thesis using priced(2) [OF Inl] Inl Some True \<open>last_live s pid = Some v\<close>
          by auto
      next
        case (Inr f)
        then show ?thesis using priced(1) [OF Inr] Some by auto
      qed
    qed
  qed
qed

lemma cached_price_known:
  "meta s pid = Some m \<Longrightarrow> m_price_per_unit m = Some p \<Longrightarrow> p \<noteq> 0 \<Longrightarrow>
   cached_price s pid = Some (p * 10)"
  by (simp add: cached_price_def)

lemma dispensing_item:
  "make_rt now pid (read_live pid live s) = Inr rt \<Longrightarrow>
     map_option realtime (fst (dispensing now pid live item s)) = Some (Some rt)"
  "make_rt now pid (read_live pid live s) = Inl e \<Longrightarrow>
     dispensing now pid live item s = (None, read_live pid live s)"
  by (simp_all add: dispensing_def Let_def)

text \<open>
  C1, as it holds of the loop. For a pump that is dispensing, with a cached price \<open>p\<close>
  that is positive and a cached live value \<open>v\<close> after this tick's read, the realtime
  record carries \<open>price_per_unit = 10 * p\<close>, \<open>total_amount = round(v, 2) * 1000\<close> and
  \<open>volume = round(total_amount / (10 * p), 3)\<close>, each operation in float arithmetic:
  the divisor is ten times the cached price, converted to float, which is exact below
  \<open>2 ^ 53\<close>. Where that conversion overflows, the pump has no record in the frame.
  With price 8150 and live value 10.0 the record has \<open>total_amount = 10000.0\<close> and
  \<open>volume = 0.123\<close>.
\<close>

theorem realtime_of_known_price:
  assumes "st_status st = DISPENSING"
    and "meta s pid = Some m" and "m_price_per_unit m = Some p" and "0 < p"
    and "last_live (read_live pid live s) pid = Some v"
  shows "(\<forall>price_f. float_of_int (p * 10) = Inr price_f \<longrightarrow>
            map_option realtime (fst (process_pump now pid st live s)) =
              Some (Some \<lparr>rt_price_per_unit = Some (p * 10), rt_grade = m_grade m,
                rt_timestamp = now,
                rt_total_amount = Some (float_mul (round_ndigits v 2) (Num 1000)),
                rt_volume = Some (round_ndigits
                  (ieee_div (float_mul (round_ndigits v 2) (Num 1000)) price_f) 3)\<rparr>))
       \<and> (p * 10 < 2 ^ 53 \<longrightarrow> float_of_int (p * 10) = Inr (Num (of_int (p * 10))))
       \<and> (float_of_int (p * 10) = Inl OverflowError \<longrightarrow>
            fst (process_pump now pid st live s) = None)"
proof -
  let ?s1 = "read_live pid live s"
  have price: "cached_price ?s1 pid = Some (p * 10)"
    using assms(2-4) by (simp add: read_live_cached_price cached_price_known)
  have pos: "0 < p * 10" using assms(4) by simp
  note rt = make_rt_priced [OF price pos assms(5), of _ now]
  have grade: "(case meta ?s1 pid of None \<Rightarrow> None | Some m \<Rightarrow> m_grade m) = m_grade m"
    using assms(2) by (simp add: read_live_meta)
  have a: "map_option realtime (fst (process_pump now pid st live s)) =
              Some (Some \<lparr>rt_price_per_unit = Some (p * 10), rt_grade = m_grade m,
                rt_timestamp = now,
                rt_total_amount = Some (float_mul (round_ndigits v 2) (Num 1000)),
                rt_volume = Some (round_ndigits
                  (ieee_div (float_mul (round_ndigits v 2) (Num 1000)) price_f) 3)\<rparr>)"
    if "float_of_int (p * 10) = Inr price_f" for price_f
    using dispensing_item(1) [OF rt(1) [OF that], of "st_dict st"] assms(1)
    by (simp only: process_pump_dispensing grade)
  have b: "float_of_int (p * 10) = Inr (Num (of_int (p * 10)))" if "p * 10 < 2 ^ 53"
    using that pos by (intro float_of_int_exact) simp
  have c: "fst (process_pump now pid st live s) = None"
    if "float_of_int (p * 10) = Inl OverflowError"
    using dispensing_item(2) [OF rt(2) [OF that], of "st_dict st"] assms(1)
    by (simp add: process_pump_dispensing)
  show ?thesis using a b c by blast
qed

lemma float_10_by_1000: "float_mul (round_ndigits (Num 10) 2) (Num 1000) = Num 10000"
  by code_simp

lemma volume_10000_by_81500:
  "round_ndigits (ieee_div (Num 10000) (Num 81500)) 3 = Num (553942754166571 / 4503599627370496)"
  by code_simp

lemma volume_10000_by_8150:
  "round_ndigits (ieee_div (Num 10000) (Num 8150)) 3 = Num (5525916742783599 / 4503599627370496)"
  by code_simp

lemma float_0_123: "to_float (123 / 1000) = Num (553942754166571 / 4503599627370496)"
  by code_simp

lemma float_1_227: "to_float (1227 / 1000) = Num (5525916742783599 / 4503599627370496)"
  by code_simp

theorem realtime_of_known_price_witness:
  "map_option realtime
     (fst (process_pump ''2025-07-09T20:13:44'' 1 dispensing_pump (Live_returns (Some (Num 10)))
        (no_caches\<lparr>meta := [1 \<mapsto> \<lparr>m_price_per_unit = Some 8150, m_grade = Some 0\<rparr>]\<rparr>))) =
   Some (Some \<lparr>rt_price_per_unit = Some 81500, rt_grade = Some 0,
         rt_timestamp = ''2025-07-09T20:13:44'',
         rt_total_amount = Some (Num 10000),
         rt_volume = Some (Num (553942754166571 / 4503599627370496))\<rparr>)"
proof -
  let ?m = "\<lparr>m_price_per_unit = Some 8150, m_grade = Some 0\<rparr>"
  let ?s = "no_caches\<lparr>meta := [1 \<mapsto> ?m]\<rparr>"
  have conv: "float_of_int (8150 * 10) = Inr (Num 81500)"
    using float_of_int_exact [of 81500] by simp
  have "st_status dispensing_pump = DISPENSING" by (simp add: dispensing_pump_def)
  moreover have "meta ?s 1 = Some ?m" by simp
  moreover have "m_price_per_unit ?m = Some 8150" by simp
  moreover have "last_live (read_live 1 (Live_returns (Some (Num 10))) ?s) 1 = Some (Num 10)"
    by (simp add: read_live_def)
  ultimately have
    "map_option realtime (fst (process_pump ''2025-07-09T20:13:44'' 1 dispensing_pump
          (Live_returns (Some (Num 10))) ?s)) =
     Some (Some \<lparr>rt_price_per_unit = Some (8150 * 10), rt_grade = m_grade ?m,
           rt_timestamp = ''2025-07-09T20:13:44'',
           rt_total_amount = Some (float_mul (round_ndigits (Num 10) 2) (Num 1000)),
           rt_volume = Some (round_ndigits
             (ieee_div (float_mul (round_ndigits (Num 10) 2) (Num 1000)) (Num 81500)) 3)\<rparr>)"
    using realtime_of_known_price [where p = 8150 and v = "Num 10" and m = ?m and s = ?s
        and pid = 1 and st = dispensing_pump and live = "Live_returns (Some (Num 10))"
        and now = "''2025-07-09T20:13:44''"] conv
    by simp
  then show ?thesis
    by (simp only: float_10_by_1000 volume_10000_by_81500) simp
qed

lemma priced_example:
  assumes "float_of_int (p * 10) = Inr price_f" and "0 < p"
  shows "map_option realtime
     (fst (process_pump now 1 dispensing_pump (Live_returns (Some v))
        (no_caches\<lparr>meta := [1 \<mapsto> \<lparr>m_price_per_unit = Some p, m_grade = Some 0\<rparr>]\<rparr>))) =
   Some (Some \<lparr>rt_price_per_unit = Some (p * 10), rt_grade = Some 0, rt_timestamp = now,
         rt_total_amount = Some (float_mul (round_ndigits v 2) (Num 1000)),
         rt_volume = Some (round_ndigits
           (ieee_div (float_mul (round_ndigits v 2) (Num 1000)) price_f) 3)\<rparr>)"
proof -
  let ?s = "no_caches\<lparr>meta := [1 \<mapsto> \<lparr>m_price_per_unit = Some p, m_grade = Some 0\<rparr>]\<rparr>"
  let ?s1 = "read_live 1 (Live_returns (Some v)) ?s"
  have "cached_price ?s1 1 = Some (p * 10)"
    using assms(2) by (simp add: read_live_cached_price cached_price_def)
  moreover have "0 < p * 10" using assms(2) by simp
  moreover have "last_live ?s1 1 = Some v" by (simp add: read_live_def)
  ultimately have "make_rt now 1 ?s1 =
       Inr \<lparr>rt_price_per_unit = Some (p * 10),
            rt_grade = (case meta ?s1 1 of None \<Rightarrow> None | Some m \<Rightarrow> m_grade m),
            rt_timestamp = now,
            rt_total_amount = Some (float_mul (round_ndigits v 2) (Num 1000)),
            rt_volume = Some (round_ndigits
              (ieee_div (float_mul (round_ndigits v 2) (Num 1000)) price_f) 3)\<rparr>"
    using assms(1) by (intro make_rt_priced(1))
  then have "make_rt now 1 ?s1 =
       Inr \<lparr>rt_price_per_unit = Some (p * 10), rt_grade = Some 0, rt_timestamp = now,
            rt_total_amount = Some (float_mul (round_ndigits v 2) (Num 1000)),
            rt_volume = Some (round_ndigits
              (ieee_div (float_mul (round_ndigits v 2) (Num 1000)) price_f) 3)\<rparr>"
    by (simp add: read_live_meta)
  from dispensing_item(1) [OF this, of "st_dict dispensing_pump"] show ?thesis
    by (simp add: process_pump_dispensing dispensing_pump_def)
qed

text \<open>
  With cached price 8150 and live value 10.0 the record has \<open>total_amount = 10000.0\<close>
  and as volume the float written 0.123, which is not \<open>round(10000 / 8150, 3)\<close>, the
  float written 1.227.
\<close>

theorem realtime_volume_divides_by_tenfold_price:
  "map_option realtime
     (fst (process_pump ''2025-07-09T20:13:44'' 1 dispensing_pump (Live_returns (Some (Num 10)))
        (no_caches\<lparr>meta := [1 \<mapsto> \<lparr>m_price_per_unit = Some 8150, m_grade = Some 0\<rparr>]\<rparr>))) =
     Some (Some \<lparr>rt_price_per_unit = Some 81500, rt_grade = Some 0,
       rt_timestamp = ''2025-07-09T20:13:44'',
       rt_total_amount = Some (Num 10000),
       rt_volume = Some (Num (553942754166571 / 4503599627370496))\<rparr>)
   \<and> to_float (123 / 1000) = Num (553942754166571 / 4503599627370496)
   \<and> round_ndigits (ieee_div (Num 10000) (Num 8150)) 3 = Num (5525916742783599 / 4503599627370496)
   \<and> to_float (1227 / 1000) = Num (5525916742783599 / 4503599627370496)
   \<and> Num (553942754166571 / 4503599627370496) \<noteq> Num (5525916742783599 / 4503599627370496)"
proof -
  have conv: "float_of_int (8150 * 10) = Inr (Num 81500)"
    using float_of_int_exact [of 81500] by simp
  have "map_option realtime
     (fst (process_pump ''2025-07-09T20:13:44'' 1 dispensing_pump (Live_returns (Some (Num 10)))
        (no_caches\<lparr>meta := [1 \<mapsto> \<lparr>m_price_per_unit = Some 8150, m_grade = Some 0\<rparr>]\<rparr>))) =
     Some (Some \<lparr>rt_price_per_unit = Some 81500, rt_grade = Some 0,
       rt_timestamp = ''2025-07-09T20:13:44'',
       rt_total_amount = Some (Num 10000),
       rt_volume = Some (Num (553942754166571 / 4503599627370496))\<rparr>)"
    using priced_example [OF conv, of "''2025-07-09T20:13:44''" "Num 10"]
    by (simp only: float_10_by_1000 volume_10000_by_81500) simp
  then show ?thesis
    by (simp add: float_0_123 float_1_227 volume_10000_by_8150)
qed

text \<open>
  Two computations in which the binary rounding shows. The live value 0.2 at cached price
  8000: the quotient is the double next above 0.0025, and the volume is 0.003. The live
  value 2.01 at cached price 8150: the total is 2009.9999999999998.
\<close>

lemma realtime_rounds_in_binary:
  "to_float (1 / 5) = Num (3602879701896397 / 18014398509481984)
   \<and> round_ndigits (ieee_div (float_mul
        (round_ndigits (Num (3602879701896397 / 18014398509481984)) 2) (Num 1000)) (Num 80000)) 3
      = to_float (3 / 1000)
   \<and> to_float (201 / 100) = Num (1131529406376837 / 562949953421312)
   \<and> float_mul (round_ndigits (Num (1131529406376837 / 562949953421312)) 2) (Num 1000)
      = Num (8840073487319039 / 4398046511104)"
  by code_simp

lemma make_rt_last_tx: "make_rt now pid (s\<lparr>last_tx := x\<rparr>) = make_rt now pid s"
  by (simp add: make_rt_def cached_price_def)

lemma cached_price_last_tx: "cached_price (s\<lparr>last_tx := x\<rparr>) = cached_price s"
  by (rule ext) (simp add: cached_price_def)

text \<open>The caches that the dispensing branch leaves.\<close>

lemma dispensing_caches:
  "snd (dispensing now pid live item s) =
     (let s1 = read_live pid live s
      in if last_live s1 pid = Some (Num 0) \<and> (\<forall>e. make_rt now pid s1 \<noteq> Inl e)
         then s1\<lparr>last_tx := (last_tx s1)(pid := None)\<rparr> else s1)"
  by (cases "make_rt now pid (read_live pid live s)") (simp_all add: dispensing_def Let_def)

lemma small_price_converts:
  assumes "cached_price s pid = Some pr" and "0 < pr" and "pr < 2 ^ 53"
  shows "float_of_int pr \<noteq> Inl OverflowError"
proof -
  have "float_of_int pr = Inr (Num (of_int pr))"
    using assms(2,3) by (intro float_of_int_exact) simp
  then show ?thesis by simp
qed

text \<open>
  C4, as it holds of the loop. For a pump that is dispensing, the pass stores the value
  read, when there is one, as the cached live value, and clears the cached transaction
  exactly when the cached live value is then 0 and the realtime record was built without
  an exception; otherwise the cached transaction stays. The record is not built exactly
  when there is a cached live value and ten times a positive cached price is too large
  for a float, which no price below \<open>2 ^ 53\<close> is: with such prices the cached
  transaction is cleared exactly when the cached live value is then 0. For a pump in any
  other state both caches stay as they were. No pass clears a cached live value.
\<close>

theorem last_tx_cleared_on_zero_live:
  assumes "s' = snd (process_pump now pid st live s)"
  shows "(st_status st = DISPENSING \<longrightarrow>
            last_live s' =
              (case live of Live_returns (Some v) \<Rightarrow> (last_live s)(pid \<mapsto> v) | _ \<Rightarrow> last_live s)
          \<and> last_tx s' =
              (if last_live s' pid = Some (Num 0) \<and> (\<forall>e. make_rt now pid s' \<noteq> Inl e)
               then (last_tx s)(pid := None) else last_tx s))
       \<and> ((\<exists>e. make_rt now pid s' = Inl e) =
            (\<exists>pr. cached_price s pid = Some pr \<and> 0 < pr \<and> last_live s' pid \<noteq> None \<and>
               float_of_int pr = Inl OverflowError))
       \<and> (st_status st = DISPENSING \<and> (\<forall>pr. cached_price s pid = Some pr \<longrightarrow> pr < 2 ^ 53) \<longrightarrow>
            last_tx s' =
              (if last_live s' pid = Some (Num 0) then (last_tx s)(pid := None) else last_tx s))
       \<and> (st_status st \<noteq> DISPENSING \<longrightarrow> last_live s' = last_live s \<and> last_tx s' = last_tx s)
       \<and> dom (last_live s) \<subseteq> dom (last_live s')"
proof -
  let ?s1 = "read_live pid live s"
  let ?clear = "last_live ?s1 pid = Some (Num 0) \<and> (\<forall>e. make_rt now pid ?s1 \<noteq> Inl e)"
  have other: "s' = s" if "st_status st \<noteq> DISPENSING"
    using that assms by (simp add: process_pump_other)
  have disp: "s' = (if ?clear then ?s1\<lparr>last_tx := (last_tx ?s1)(pid := None)\<rparr> else ?s1)"
    if "st_status st = DISPENSING"
    using that assms by (simp add: process_pump_dispensing dispensing_caches Let_def)
  have price: "cached_price s' = cached_price s"
    by (cases "st_status st = DISPENSING")
       (simp_all add: disp other cached_price_last_tx read_live_cached_price)
  have rt: "make_rt now pid s' = make_rt now pid ?s1" if "st_status st = DISPENSING"
    by (simp add: disp [OF that] make_rt_last_tx)
  have ll: "last_live s' = last_live ?s1" if "st_status st = DISPENSING"
    by (simp add: disp [OF that])
  have lt: "last_tx s' =
      (if last_live s' pid = Some (Num 0) \<and> (\<forall>e. make_rt now pid s' \<noteq> Inl e)
       then (last_tx s)(pid := None) else last_tx s)" if d: "st_status st = DISPENSING"
    unfolding rt [OF d] ll [OF d] by (simp add: disp [OF d] read_live_last_tx)
  have raises: "(\<exists>e. make_rt now pid s' = Inl e) =
      (\<exists>pr. cached_price s pid = Some pr \<and> 0 < pr \<and> last_live s' pid \<noteq> None \<and>
         float_of_int pr = Inl OverflowError)"
    using make_rt_raises_iff [of now pid s'] by (simp only: price)
  have small: "last_tx s' =
      (if last_live s' pid = Some (Num 0) then (last_tx s)(pid := None) else last_tx s)"
    if d: "st_status st = DISPENSING" and b: "\<forall>pr. cached_price s pid = Some pr \<longrightarrow> pr < 2 ^ 53"
  proof -
    have "\<forall>e. make_rt now pid s' \<noteq> Inl e"
      using raises small_price_converts [of s pid] b by blast
    then show ?thesis using lt [OF d] by simp
  qed
  have mono: "dom (last_live s) \<subseteq> dom (last_live s')"
  proof (cases "st_status st = DISPENSING")
    case True
    show ?thesis unfolding ll [OF True] read_live_last_live
      by (auto split: live_read.splits option.splits)
  next
    case False
    then show ?thesis by (simp add: other)
  qed
  have live: "last_live s' =
      (case live of Live_returns (Some v) \<Rightarrow> (last_live s)(pid \<mapsto> v) | _ \<Rightarrow> last_live s)"
    if "st_status st = DISPENSING"
    by (simp only: ll [OF that] read_live_last_live)
  show ?thesis
    using live lt raises small other mono by (intro conjI impI) simp_all
qed

theorem last_tx_cleared_on_zero_live_witness:
  "last_tx (snd (process_pump ''2025-07-09T20:13:45'' 1 dispensing_pump (Live_returns (Some (Num 0)))
      (no_caches\<lparr>last_live := [1 \<mapsto> Num 5], last_tx := [1 \<mapsto> sale]\<rparr>))) 1 = None
   \<and> last_live (snd (process_pump ''2025-07-09T20:13:45'' 1 dispensing_pump
      (Live_returns (Some (Num 0)))
      (no_caches\<lparr>last_live := [1 \<mapsto> Num 5], last_tx := [1 \<mapsto> sale]\<rparr>))) 1 = Some (Num 0)"
proof -
  let ?s = "no_caches\<lparr>last_live := [1 \<mapsto> Num 5], last_tx := [1 \<mapsto> sale]\<rparr>"
  let ?s' = "snd (process_pump ''2025-07-09T20:13:45'' 1 dispensing_pump
      (Live_returns (Some (Num 0))) ?s)"
  note inst = last_tx_cleared_on_zero_live
    [of ?s' "''2025-07-09T20:13:45''" 1 dispensing_pump "Live_returns (Some (Num 0))" ?s,
     OF refl]
  have d: "st_status dispensing_pump = DISPENSING" by (simp add: dispensing_pump_def)
  have no_price: "\<forall>pr. cached_price ?s 1 = Some pr \<longrightarrow> pr < 2 ^ 53"
    by (simp add: cached_price_def no_caches_def)
  have live: "last_live ?s' = (last_live ?s)(1 \<mapsto> Num 0)"
    using inst d by simp
  have "last_tx ?s' =
      (if last_live ?s' 1 = Some (Num 0) then (last_tx ?s)(1 := None) else last_tx ?s)"
    using inst d no_price by blast
  then show ?thesis using live by simp
qed

text \<open>
  A dispensing pump with cached live value 5 and a cached transaction reads 3, which is
  smaller: the transaction stays. The same read with no cached live value: the
  transaction stays. The pump is then idle: the cached live value stays.
\<close>

theorem last_tx_kept_on_smaller_live:
  "last_tx (snd (process_pump ''2025-07-09T20:13:45'' 1 dispensing_pump (Live_returns (Some (Num 3)))
      (no_caches\<lparr>last_live := [1 \<mapsto> Num 5], last_tx := [1 \<mapsto> sale]\<rparr>))) 1 = Some sale
   \<and> last_tx (snd (process_pump ''2025-07-09T20:13:45'' 1 dispensing_pump
      (Live_returns (Some (Num 3)))
      (no_caches\<lparr>last_tx := [1 \<mapsto> sale]\<rparr>))) 1 = Some sale
   \<and> last_live (snd (process_pump ''2025-07-09T20:13:46'' 1 idle_pump Live_raises
      (no_caches\<lparr>last_live := [1 \<mapsto> Num 3], last_tx := [1 \<mapsto> sale]\<rparr>))) 1 = Some (Num 3)"
  by (simp add: process_pump_dispensing process_pump_other dispensing_caches read_live_def Let_def
      dispensing_pump_def idle_pump_def no_caches_def)

text \<open>
  A dispensing pump whose cached price is \<open>2 ^ 1024\<close> reads the live value 0: the
  conversion of the price raises, no item is appended and the cached transaction stays.
\<close>

lemma last_tx_kept_on_price_overflow:
  "process_pump ''2025-07-09T20:13:45'' 1 dispensing_pump (Live_returns (Some (Num 0)))
      (no_caches\<lparr>meta := [1 \<mapsto> \<lparr>m_price_per_unit = Some (2 ^ 1024), m_grade = None\<rparr>],
                 last_tx := [1 \<mapsto> sale]\<rparr>) =
   (None, no_caches\<lparr>meta := [1 \<mapsto> \<lparr>m_price_per_unit = Some (2 ^ 1024), m_grade = None\<rparr>],
                 last_live := [1 \<mapsto> Num 0], last_tx := [1 \<mapsto> sale]\<rparr>)"
proof -
  let ?s = "no_caches\<lparr>meta := [1 \<mapsto> \<lparr>m_price_per_unit = Some (2 ^ 1024), m_grade = None\<rparr>],
                 last_tx := [1 \<mapsto> sale]\<rparr>"
  let ?s1 = "read_live 1 (Live_returns (Some (Num 0))) ?s"
  have over: "float_of_int (2 ^ 1024 * 10) = Inl OverflowError"
    by (rule float_of_int_overflow) simp
  have "cached_price ?s1 1 = Some (2 ^ 1024 * 10)"
    by (simp add: read_live_cached_price cached_price_def)
  moreover have "(0::int) < 2 ^ 1024 * 10" by simp
  moreover have "last_live ?s1 1 = Some (Num 0)" by (simp add: read_live_def)
  ultimately have "make_rt ''2025-07-09T20:13:45'' 1 ?s1 = Inl OverflowError"
    using over by (intro make_rt_priced(2))
  from dispensing_item(2) [OF this, of "st_dict dispensing_pump"] show ?thesis
    by (simp add: process_pump_dispensing dispensing_pump_def read_live_def no_caches_def)
qed

end
